theory Spec2Isabelle
  imports Complex_Main
begin

section \<open>The dispatch database\<close>

text \<open>
  The dispatch engine of the repository is a set of PL/pgSQL functions and triggers over
  the tables \<open>orders\<close>, \<open>facilities\<close>, \<open>drivers\<close>, \<open>facility_drivers\<close>,
  \<open>driver_packages\<close>, \<open>package_orders\<close> and \<open>package_logs\<close>. A table is the list of
  its rows in scan order; a query without \<open>ORDER BY\<close> returns rows in that order, a join
  lists the rows of its first table in scan order, each with its partners in scan order, and
  \<open>ORDER BY ... LIMIT 1\<close> returns the first row in scan order among those with the least
  (or greatest) key. A nullable column is an \<open>option\<close>; comparisons with NULL are never
  true. A \<open>uuid\<close> is an integer (the trigger \<open>validate_order_assignment\<close> compares
  one with \<open>-1\<close>), \<open>gen_random_uuid()\<close> yields an identifier used nowhere in the package
  tables, a \<open>timestamptz\<close> is a calendar day and a time of day in seconds, \<open>now()\<close>
  is the field \<open>clock\<close>, \<open>float\<close> is \<open>real\<close>.
  The \<open>id\<close> columns are primary keys. Only the columns the dispatch functions read or
  write are kept. A statement inside a function fires the row triggers of the table it
  writes: \<open>enforce_order_assignment\<close> on \<open>package_orders\<close>, \<open>enforce_active_driver\<close> and
  \<open>enforce_unique_driver_assignment\<close> on \<open>orders\<close> (the triggers over the columns kept
  here), \<open>notify_unassigned_packages_trigger\<close> on \<open>driver_packages\<close>. A raised exception
  is a value \<open>Inl e\<close>, and the statement or block it ends leaves the state as it was.
  Foreign keys, locks and row-level security are not modelled. An unqualified
  \<open>package_id\<close> inside a query over \<open>package_orders\<close> is read as the column where the
  statement filters on it, and as the PL/pgSQL variable where it is the value compared
  with or inserted.
\<close>

type_synonym uuid = int
type_synonym date = int
type_synonym time = nat

record order_row =
  o_id :: uuid
  o_status :: string
  o_facility_id :: "uuid option"
  o_assigned_driver_id :: "uuid option"
  o_estimated_delivery :: "date \<times> time"

record facility_row =
  f_id :: uuid
  f_status :: bool
  f_latitude :: real
  f_longitude :: real
  f_opening_hour :: "time option"
  f_close_hour :: "time option"

record driver_row =
  d_id :: uuid
  d_status :: bool

record facility_driver_row =
  fd_facility_id :: "uuid option"
  fd_driver_id :: "uuid option"

record driver_package_row =
  dp_id :: uuid
  dp_driver_id :: "uuid option"
  dp_facility_id :: "uuid option"
  dp_package_date :: date
  dp_start_time :: time
  dp_end_time :: time
  dp_status :: string
  dp_created_at :: int

record package_order_row =
  po_id :: uuid
  po_package_id :: "uuid option"
  po_order_id :: "uuid option"
  po_sequence_number :: int
  po_estimated_arrival :: "time option"
  po_status :: string

datatype error =
    OrderAlreadyAssigned "uuid option"
  | DriverMismatch "uuid option"
  | DriverDoubleBooked uuid uuid
  | InactiveDriver
  | UniqueViolation string

datatype json = JUuid "uuid option" | JDate date | JError error

record package_log_row =
  pl_package_id :: "uuid option"
  pl_event_type :: string
  pl_details :: "(string \<times> json) list"

record db =
  orders :: "order_row list"
  facilities :: "facility_row list"
  drivers :: "driver_row list"
  facility_drivers :: "facility_driver_row list"
  driver_packages :: "driver_package_row list"
  package_orders :: "package_order_row list"
  package_logs :: "package_log_row list"
  clock :: int

definition sql_eq :: "'a option \<Rightarrow> 'a option \<Rightarrow> bool" where
  "sql_eq a b = (case a of None \<Rightarrow> False | Some x \<Rightarrow> (case b of None \<Rightarrow> False | Some y \<Rightarrow> x = y))"

definition sql_ne :: "'a option \<Rightarrow> 'a option \<Rightarrow> bool" where
  "sql_ne a b = (case a of None \<Rightarrow> False | Some x \<Rightarrow> (case b of None \<Rightarrow> False | Some y \<Rightarrow> x \<noteq> y))"

text \<open>\<open>ORDER BY key ASC LIMIT 1\<close>: the first row in scan order with the least key.\<close>

fun first_min_by :: "('a \<Rightarrow> 'k::linorder) \<Rightarrow> 'a list \<Rightarrow> 'a option" where
  "first_min_by key [] = None"
| "first_min_by key (x # xs) =
     (case first_min_by key xs of
        None \<Rightarrow> Some x
      | Some y \<Rightarrow> if key x \<le> key y then Some x else Some y)"

text \<open>\<open>ORDER BY key DESC LIMIT 1\<close>: the first row in scan order with the greatest key.\<close>

fun first_max_by :: "('a \<Rightarrow> 'k::linorder) \<Rightarrow> 'a list \<Rightarrow> 'a option" where
  "first_max_by key [] = None"
| "first_max_by key (x # xs) =
     (case first_max_by key xs of
        None \<Rightarrow> Some x
      | Some y \<Rightarrow> if key y \<le> key x then Some x else Some y)"

section \<open>Geo utility and facility locator (migration frosty_union)\<close>

definition radians :: "real \<Rightarrow> real" where
  "radians x = x * pi / 180"

text \<open>\<open>calculate_distance(lat1, lon1, lat2, lon2)\<close>: the haversine formula, radius 6371.\<close>

definition calculate_distance :: "real \<Rightarrow> real \<Rightarrow> real \<Rightarrow> real \<Rightarrow> real" where
  "calculate_distance lat1 lon1 lat2 lon2 =
     (let lat1r = radians lat1; lon1r = radians lon1;
          lat2r = radians lat2; lon2r = radians lon2;
          dlat = lat2r - lat1r;
          dlon = lon2r - lon1r;
          a = (sin (dlat / 2))\<^sup>2 + cos lat1r * cos lat2r * (sin (dlon / 2))\<^sup>2;
          c = 2 * arcsin (sqrt a)
      in 6371 * c)"

text \<open>The rows of \<open>facilities\<close> that pass the \<open>WHERE\<close> clause of \<open>find_nearest_facility\<close>.\<close>

definition open_facilities :: "db \<Rightarrow> time \<Rightarrow> facility_row list" where
  "open_facilities st delivery_time_only =
     filter (\<lambda>f. f_status f
                \<and> (case f_opening_hour f of None \<Rightarrow> False | Some t \<Rightarrow> t \<le> delivery_time_only)
                \<and> (case f_close_hour f of None \<Rightarrow> False | Some t \<Rightarrow> t \<ge> delivery_time_only))
            (facilities st)"

definition find_nearest_facility :: "db \<Rightarrow> real \<Rightarrow> real \<Rightarrow> date \<times> time \<Rightarrow> uuid option" where
  "find_nearest_facility st order_lat order_lon delivery_time =
     (let delivery_time_only = snd delivery_time in
      map_option f_id
        (first_min_by (\<lambda>f. calculate_distance order_lat order_lon (f_latitude f) (f_longitude f))
           (open_facilities st delivery_time_only)))"



section \<open>Consistency guards on \<open>orders\<close> (migrations white_bar, broad_pine)\<close>

text \<open>\<open>validate_driver_status\<close>, trigger \<open>enforce_active_driver\<close>.\<close>

definition validate_driver_status :: "db \<Rightarrow> order_row \<Rightarrow> error + order_row" where
  "validate_driver_status st NEW =
     (case o_assigned_driver_id NEW of
        None \<Rightarrow> Inr NEW
      | Some drv \<Rightarrow>
          if \<not> (\<exists>d \<in> set (drivers st). d_id d = drv \<and> d_status d)
          then Inl InactiveDriver
          else Inr NEW)"

text \<open>\<open>prevent_duplicate_driver_assignment\<close>, trigger \<open>enforce_unique_driver_assignment\<close>.\<close>

definition prevent_duplicate_driver_assignment :: "db \<Rightarrow> order_row \<Rightarrow> error + order_row" where
  "prevent_duplicate_driver_assignment st NEW =
     (case o_assigned_driver_id NEW of
        None \<Rightarrow> Inr NEW
      | Some drv \<Rightarrow>
          if \<exists>ord \<in> set (orders st).
               o_id ord \<noteq> o_id NEW
             \<and> sql_eq (o_assigned_driver_id ord) (Some drv)
             \<and> fst (o_estimated_delivery ord) = fst (o_estimated_delivery NEW)
          then Inl (DriverDoubleBooked (o_id NEW) drv)
          else Inr NEW)"

text \<open>
  \<open>UPDATE orders SET assigned_driver_id = ...\<close> on the row at position \<open>i\<close>: the two
  \<open>BEFORE UPDATE\<close> row triggers run in the order of their names, then the row is stored.
  A multi-row statement visits the rows in scan order, each trigger seeing the rows stored
  before it.
\<close>

definition update_order_at :: "db \<Rightarrow> nat \<Rightarrow> uuid option \<Rightarrow> error + db" where
  "update_order_at st i drv =
     (case validate_driver_status st ((orders st ! i)\<lparr>o_assigned_driver_id := drv\<rparr>) of
        Inl e \<Rightarrow> Inl e
      | Inr n1 \<Rightarrow>
          (case prevent_duplicate_driver_assignment st n1 of
             Inl e \<Rightarrow> Inl e
           | Inr n2 \<Rightarrow> Inr (st\<lparr>orders := (orders st)[i := n2]\<rparr>)))"

fun update_orders_from :: "nat list \<Rightarrow> (order_row \<Rightarrow> bool) \<Rightarrow> uuid option \<Rightarrow> db \<Rightarrow> error + db" where
  "update_orders_from [] p drv st = Inr st"
| "update_orders_from (i # is) p drv st =
     (if p (orders st ! i)
      then (case update_order_at st i drv of
              Inl e \<Rightarrow> Inl e
            | Inr st' \<Rightarrow> update_orders_from is p drv st')
      else update_orders_from is p drv st)"

definition update_orders_where :: "(order_row \<Rightarrow> bool) \<Rightarrow> uuid option \<Rightarrow> db \<Rightarrow> error + db" where
  "update_orders_where p drv st = update_orders_from [0..<length (orders st)] p drv st"

section \<open>Consistency guard on \<open>package_orders\<close> (migration broad_pine)\<close>

text \<open>The scalar subquery \<open>SELECT driver_id FROM driver_packages WHERE id = NEW.package_id\<close>.\<close>

definition package_driver :: "db \<Rightarrow> uuid option \<Rightarrow> uuid option" where
  "package_driver st pid =
     (case filter (\<lambda>dp. sql_eq (Some (dp_id dp)) pid) (driver_packages st) of
        [] \<Rightarrow> None
      | dp # _ \<Rightarrow> dp_driver_id dp)"

text \<open>\<open>validate_order_assignment\<close>, trigger \<open>enforce_order_assignment\<close>.\<close>

definition validate_order_assignment :: "db \<Rightarrow> package_order_row \<Rightarrow> error + db \<times> package_order_row" where
  "validate_order_assignment st NEW =
     (if \<exists>po \<in> set (package_orders st).
           sql_eq (po_order_id po) (po_order_id NEW)
         \<and> sql_ne (po_package_id po)
                  (Some (case po_package_id NEW of None \<Rightarrow> - 1 | Some p \<Rightarrow> p))
      then Inl (OrderAlreadyAssigned (po_order_id NEW))
      else if \<exists>ord \<in> set (orders st). \<exists>dp \<in> set (driver_packages st).
                sql_eq (Some (dp_id dp)) (po_package_id NEW)
              \<and> sql_eq (Some (o_id ord)) (po_order_id NEW)
              \<and> o_assigned_driver_id ord \<noteq> None
              \<and> sql_ne (o_assigned_driver_id ord) (dp_driver_id dp)
      then Inl (DriverMismatch (po_order_id NEW))
      else (case update_orders_where (\<lambda>ord. sql_eq (Some (o_id ord)) (po_order_id NEW))
                   (package_driver st (po_package_id NEW)) st of
              Inl e \<Rightarrow> Inl e
            | Inr st' \<Rightarrow> Inr (st', NEW)))"

text \<open>
  The unique constraints of \<open>package_orders\<close>: \<open>UNIQUE (package_id, order_id)\<close> of the table
  definition and \<open>unique_order_assignment UNIQUE (order_id)\<close>, checked against the rows
  \<open>others\<close> (every stored row on insert, every other row on update). Primary keys are
  generated, and their check is not modelled.
\<close>

definition unique_checks :: "package_order_row list \<Rightarrow> package_order_row \<Rightarrow> error option" where
  "unique_checks others NEW =
     (if \<exists>po \<in> set others. sql_eq (po_package_id po) (po_package_id NEW)
                          \<and> sql_eq (po_order_id po) (po_order_id NEW)
      then Some (UniqueViolation ''package_orders_package_id_order_id_key'')
      else if \<exists>po \<in> set others. sql_eq (po_order_id po) (po_order_id NEW)
      then Some (UniqueViolation ''unique_order_assignment'')
      else None)"

text \<open>\<open>INSERT INTO package_orders\<close> of one row: the trigger, then the constraints.\<close>

definition insert_package_order :: "db \<Rightarrow> package_order_row \<Rightarrow> error + db" where
  "insert_package_order st row =
     (case validate_order_assignment st row of
        Inl e \<Rightarrow> Inl e
      | Inr (st', NEW) \<Rightarrow>
          (case unique_checks (package_orders st') NEW of
             Some e \<Rightarrow> Inl e
           | None \<Rightarrow> Inr (st'\<lparr>package_orders := package_orders st' @ [NEW]\<rparr>)))"

text \<open>\<open>UPDATE package_orders\<close> of the row at position \<open>i\<close> to \<open>new\<close>.\<close>

definition update_package_order_at :: "db \<Rightarrow> nat \<Rightarrow> package_order_row \<Rightarrow> error + db" where
  "update_package_order_at st i new =
     (case validate_order_assignment st new of
        Inl e \<Rightarrow> Inl e
      | Inr (st', NEW) \<Rightarrow>
          (case unique_checks (take i (package_orders st') @ drop (Suc i) (package_orders st')) NEW of
             Some e \<Rightarrow> Inl e
           | None \<Rightarrow> Inr (st'\<lparr>package_orders := (package_orders st')[i := NEW]\<rparr>)))"

fun update_package_orders_from ::
  "nat list \<Rightarrow> (package_order_row \<Rightarrow> bool) \<Rightarrow> (package_order_row \<Rightarrow> package_order_row) \<Rightarrow> db \<Rightarrow> error + db" where
  "update_package_orders_from [] p f st = Inr st"
| "update_package_orders_from (i # is) p f st =
     (if p (package_orders st ! i)
      then (case update_package_order_at st i (f (package_orders st ! i)) of
              Inl e \<Rightarrow> Inl e
            | Inr st' \<Rightarrow> update_package_orders_from is p f st')
      else update_package_orders_from is p f st)"

definition update_package_orders_where ::
  "(package_order_row \<Rightarrow> bool) \<Rightarrow> (package_order_row \<Rightarrow> package_order_row) \<Rightarrow> db \<Rightarrow> error + db" where
  "update_package_orders_where p f st =
     update_package_orders_from [0..<length (package_orders st)] p f st"

section \<open>Packages (migration crystal_ocean)\<close>

text \<open>\<open>gen_random_uuid()\<close>: an identifier greater than every one the package tables hold.\<close>

definition used_uuids :: "db \<Rightarrow> uuid list" where
  "used_uuids st =
     map dp_id (driver_packages st) @ map po_id (package_orders st)
     @ concat (map (\<lambda>po. case po_package_id po of None \<Rightarrow> [] | Some p \<Rightarrow> [p])
                 (package_orders st))"

definition fresh_uuid :: "db \<Rightarrow> uuid" where
  "fresh_uuid st = fold max (used_uuids st) 0 + 1"

text \<open>\<open>notify_unassigned_packages\<close>, fired after the insertion of a package without driver.\<close>

definition notify_unassigned_packages :: "db \<Rightarrow> driver_package_row \<Rightarrow> db" where
  "notify_unassigned_packages st NEW =
     st\<lparr>package_logs := package_logs st @
          [\<lparr>pl_package_id = Some (dp_id NEW),
            pl_event_type = ''unassigned_package_alert'',
            pl_details = [(''facility_id'', JUuid (dp_facility_id NEW)),
                          (''package_date'', JDate (dp_package_date NEW))]\<rparr>]\<rparr>"

text \<open>
  \<open>INSERT INTO driver_packages (driver_id, facility_id, package_date, start_time, end_time,
  status) VALUES (...) RETURNING id\<close>, with the trigger \<open>notify_unassigned_packages_trigger\<close>
  (\<open>AFTER INSERT ... WHEN (NEW.driver_id IS NULL)\<close>).
\<close>

definition insert_driver_package ::
  "db \<Rightarrow> uuid option \<Rightarrow> uuid option \<Rightarrow> date \<Rightarrow> time \<Rightarrow> time \<Rightarrow> string \<Rightarrow> db \<times> uuid" where
  "insert_driver_package st driver facility pdate start_t end_t status =
     (let NEW = \<lparr>dp_id = fresh_uuid st, dp_driver_id = driver, dp_facility_id = facility,
                 dp_package_date = pdate, dp_start_time = start_t, dp_end_time = end_t,
                 dp_status = status, dp_created_at = clock st\<rparr>;
          st1 = st\<lparr>driver_packages := driver_packages st @ [NEW]\<rparr>
      in (if dp_driver_id NEW = None then notify_unassigned_packages st1 NEW else st1,
          dp_id NEW))"

text \<open>The number of rows of \<open>package_orders\<close> linked to a package.\<close>

definition package_size :: "db \<Rightarrow> uuid \<Rightarrow> nat" where
  "package_size st p = length (filter (\<lambda>po. po_package_id po = Some p) (package_orders st))"

section \<open>Single-order assignment (\<open>find_available_driver\<close>, \<open>handle_order_package\<close>)\<close>

definition driver_load :: "db \<Rightarrow> uuid \<Rightarrow> date \<Rightarrow> nat" where
  "driver_load st drv delivery_date =
     length [(dp, po). dp \<leftarrow> driver_packages st, po \<leftarrow> package_orders st,
               sql_eq (Some (dp_id dp)) (po_package_id po),
               sql_eq (dp_driver_id dp) (Some drv),
               dp_package_date dp = delivery_date]"

definition has_full_package :: "db \<Rightarrow> uuid \<Rightarrow> date \<Rightarrow> bool" where
  "has_full_package st drv delivery_date =
     (\<exists>dp \<in> set (driver_packages st).
        sql_eq (dp_driver_id dp) (Some drv)
      \<and> dp_package_date dp = delivery_date
      \<and> package_size st (dp_id dp) \<ge> 15)"

definition find_available_driver :: "db \<Rightarrow> uuid option \<Rightarrow> date \<Rightarrow> time \<Rightarrow> uuid option" where
  "find_available_driver st facility_id delivery_date delivery_time =
     map_option d_id
       (first_min_by (\<lambda>d. driver_load st (d_id d) delivery_date)
          [d. d \<leftarrow> drivers st, fd \<leftarrow> facility_drivers st,
              sql_eq (Some (d_id d)) (fd_driver_id fd),
              sql_eq (fd_facility_id fd) facility_id,
              d_status d,
              \<not> has_full_package st (d_id d) delivery_date])"

text \<open>\<open>COALESCE(MAX(sequence_number), 0) + 1\<close> over the rows of a package.\<close>

definition next_sequence_number :: "db \<Rightarrow> uuid \<Rightarrow> int" where
  "next_sequence_number st p =
     (case map po_sequence_number
             (filter (\<lambda>po. sql_eq (po_package_id po) (Some p)) (package_orders st)) of
        [] \<Rightarrow> 0
      | n # ns \<Rightarrow> fold max ns n) + 1"

text \<open>The package the per-order path reuses: one of the driver for the date with fewer than
  15 rows, the most recently created first.\<close>

definition open_package :: "db \<Rightarrow> uuid option \<Rightarrow> date \<Rightarrow> uuid option" where
  "open_package st available_driver_id delivery_date =
     map_option dp_id
       (first_max_by dp_created_at
          (filter (\<lambda>dp. sql_eq (dp_driver_id dp) available_driver_id
                       \<and> dp_package_date dp = delivery_date
                       \<and> package_size st (dp_id dp) < 15)
             (driver_packages st)))"

definition handle_order_package :: "db \<Rightarrow> order_row \<Rightarrow> error + db \<times> order_row" where
  "handle_order_package st NEW =
     (if o_status NEW \<noteq> ''processing'' \<or> o_facility_id NEW = None then Inr (st, NEW)
      else
        let delivery_date = fst (o_estimated_delivery NEW);
            delivery_time = snd (o_estimated_delivery NEW);
            existing_package_id =
              (case filter (\<lambda>po. sql_eq (po_order_id po) (Some (o_id NEW))) (package_orders st) of
                 [] \<Rightarrow> None
               | po # _ \<Rightarrow> po_package_id po)
        in if existing_package_id \<noteq> None then Inr (st, NEW)
           else
             let available_driver_id =
                   find_available_driver st (o_facility_id NEW) delivery_date delivery_time;
                 found = open_package st available_driver_id delivery_date;
                 created =
                   (if found = None \<and> available_driver_id \<noteq> None
                    then (let (s, p) = insert_driver_package st available_driver_id
                                         (o_facility_id NEW) delivery_date 32400 61200 ''assigned''
                          in (s, Some p))
                    else (st, found));
                 (st2, package_id) =
                   (case snd created of
                      None \<Rightarrow> insert_driver_package (fst created) None
                                (o_facility_id NEW) delivery_date 32400 61200 ''pending''
                    | Some p \<Rightarrow> (fst created, p))
             in case insert_package_order st2
                       \<lparr>po_id = fresh_uuid st2, po_package_id = Some package_id,
                        po_order_id = Some (o_id NEW),
                        po_sequence_number = next_sequence_number st2 package_id,
                        po_estimated_arrival = Some delivery_time,
                        po_status = ''pending''\<rparr> of
                  Inl e \<Rightarrow> Inl e
                | Inr st3 \<Rightarrow>
                    Inr (st3\<lparr>package_logs := package_logs st3 @
                               [\<lparr>pl_package_id = Some package_id,
                                 pl_event_type = ''order_assigned'',
                                 pl_details = [(''order_id'', JUuid (Some (o_id NEW))),
                                               (''driver_id'', JUuid available_driver_id),
                                               (''facility_id'', JUuid (o_facility_id NEW))]\<rparr>]\<rparr>,
                         case available_driver_id of
                           None \<Rightarrow> NEW
                         | Some d \<Rightarrow> NEW\<lparr>o_assigned_driver_id := Some d\<rparr>))"

section \<open>Route sequencing (\<open>optimize_route\<close>, migration crystal_ocean)\<close>

definition calculate_route_distance :: "real \<Rightarrow> real \<Rightarrow> real \<Rightarrow> real \<Rightarrow> real" where
  "calculate_route_distance start_lat start_lon end_lat end_lon =
     (let start_latr = radians start_lat; start_lonr = radians start_lon;
          end_latr = radians end_lat; end_lonr = radians end_lon;
          dlat = end_latr - start_latr;
          dlon = end_lonr - start_lonr;
          a = (sin (dlat / 2))\<^sup>2 + cos start_latr * cos end_latr * (sin (dlon / 2))\<^sup>2;
          c = 2 * arcsin (sqrt a)
      in 6371 * c)"

text \<open>
  The coordinates of the package's facility: the first row of
  \<open>facilities f JOIN driver_packages dp ON f.id = dp.facility_id WHERE dp.id = package_id\<close>.
\<close>

definition facility_coordinates :: "db \<Rightarrow> uuid \<Rightarrow> (real \<times> real) option" where
  "facility_coordinates st package_id =
     (case [(f, dp). f \<leftarrow> facilities st, dp \<leftarrow> driver_packages st,
              sql_eq (Some (f_id f)) (dp_facility_id dp), dp_id dp = package_id] of
        [] \<Rightarrow> None
      | (f, dp) # _ \<Rightarrow> Some (f_latitude f, f_longitude f))"

text \<open>
  The rows the selection of the next stop ranges over: unsequenced rows of the package
  joined with their orders.
\<close>

definition route_candidates :: "db \<Rightarrow> uuid \<Rightarrow> package_order_row list" where
  "route_candidates st package_id =
     [po. po \<leftarrow> package_orders st, ord \<leftarrow> orders st,
          sql_eq (po_order_id po) (Some (o_id ord)),
          sql_eq (po_package_id po) (Some package_id),
          po_sequence_number po = 0]"

text \<open>
  \<open>random()\<close> is an oracle: \<open>draws k j\<close> are the two numbers drawn, in the \<open>k\<close>-th run of
  the loop body (counted from 0, so the variable \<open>sequence\<close> is \<open>1 + k\<close>), for the \<open>j\<close>-th
  candidate row. The sort key of a row is the distance from
  the current position to the point \<open>(random() * 90, random() * 180)\<close>; without a
  current position every key is NULL and the first candidate is taken.
\<close>

definition next_stop ::
  "(real \<times> real) option \<Rightarrow> (nat \<Rightarrow> real \<times> real) \<Rightarrow> package_order_row list \<Rightarrow> uuid option" where
  "next_stop current draw cands =
     (case current of
        None \<Rightarrow> (case cands of [] \<Rightarrow> None | po # _ \<Rightarrow> po_order_id po)
      | Some (current_lat, current_lon) \<Rightarrow>
          (case first_min_by
                  (\<lambda>(po, j). calculate_route_distance current_lat current_lon
                                (fst (draw j) * 90) (snd (draw j) * 180))
                  (zip cands [0..<length cands]) of
             None \<Rightarrow> None
           | Some (po, j) \<Rightarrow> po_order_id po))"

partial_function (option) optimize_route_loop ::
  "(nat \<Rightarrow> nat \<Rightarrow> real \<times> real) \<Rightarrow> uuid \<Rightarrow> (real \<times> real) option \<Rightarrow> nat \<Rightarrow> db \<Rightarrow> (error + db) option" where
  "optimize_route_loop draws package_id current k st =
     (if \<not> (\<exists>po \<in> set (package_orders st).
               sql_eq (po_package_id po) (Some package_id) \<and> po_sequence_number po = 0)
      then Some (Inr st)
      else
        (case update_package_orders_where
                (\<lambda>po. sql_eq (po_package_id po) (Some package_id)
                     \<and> sql_eq (po_order_id po)
                          (next_stop current (draws k) (route_candidates st package_id)))
                (\<lambda>po. po\<lparr>po_sequence_number := 1 + int k\<rparr>) st of
           Inl e \<Rightarrow> Some (Inl e)
         | Inr st' \<Rightarrow> optimize_route_loop draws package_id current (Suc k) st'))"

definition optimize_route :: "(nat \<Rightarrow> nat \<Rightarrow> real \<times> real) \<Rightarrow> uuid \<Rightarrow> db \<Rightarrow> (error + db) option" where
  "optimize_route draws package_id st =
     optimize_route_loop draws package_id (facility_coordinates st package_id) 0 st"

section \<open>Batch generation (\<open>generate_driver_packages\<close>, migration rough_pine)\<close>

text \<open>The candidate orders of a facility for the shift date.\<close>

definition unassigned_orders :: "db \<Rightarrow> uuid \<Rightarrow> date \<Rightarrow> order_row list" where
  "unassigned_orders st fid shift_date =
     filter (\<lambda>ord. sql_eq (o_facility_id ord) (Some fid)
                  \<and> fst (o_estimated_delivery ord) = shift_date
                  \<and> o_status ord = ''processing''
                  \<and> o_assigned_driver_id ord = None)
            (orders st)"

text \<open>
  \<open>INSERT INTO package_orders (package_id, order_id, sequence_number) SELECT package_id, id, 0
  FROM orders_to_assign\<close>, row by row.
\<close>

fun insert_package_orders :: "db \<Rightarrow> uuid \<Rightarrow> uuid list \<Rightarrow> error + db" where
  "insert_package_orders st package_id [] = Inr st"
| "insert_package_orders st package_id (oid # oids) =
     (case insert_package_order st
             \<lparr>po_id = fresh_uuid st, po_package_id = Some package_id, po_order_id = Some oid,
              po_sequence_number = 0, po_estimated_arrival = None, po_status = ''pending''\<rparr> of
        Inl e \<Rightarrow> Inl e
      | Inr st' \<Rightarrow> insert_package_orders st' package_id oids)"

text \<open>The query of the driver loop, evaluated when the loop starts.\<close>

definition available_drivers :: "db \<Rightarrow> uuid \<Rightarrow> date \<Rightarrow> uuid list" where
  "available_drivers st fid shift_date =
     [d_id d. d \<leftarrow> drivers st, fd \<leftarrow> facility_drivers st,
        sql_eq (Some (d_id d)) (fd_driver_id fd),
        sql_eq (fd_facility_id fd) (Some fid),
        d_status d,
        \<not> (\<exists>dp \<in> set (driver_packages st).
              sql_eq (dp_driver_id dp) (Some (d_id d))
            \<and> dp_package_date dp = shift_date
            \<and> dp_status dp \<in> {''pending'', ''assigned'', ''in_progress''})]"

text \<open>One run of the body of the driver loop, up to the call of \<open>optimize_route\<close>.\<close>

definition driver_cycle ::
  "(nat \<Rightarrow> nat \<Rightarrow> real \<times> real) \<Rightarrow> uuid \<Rightarrow> date \<Rightarrow> uuid \<Rightarrow> db \<Rightarrow> (error + db) option" where
  "driver_cycle draws fid shift_date drv st =
     (let (st1, package_id) =
            insert_driver_package st (Some drv) (Some fid) shift_date 32400 61200 ''assigned''
      in case insert_package_orders st1 package_id
                (map o_id (take 15 (unassigned_orders st1 fid shift_date))) of
           Inl e \<Rightarrow> Some (Inl e)
         | Inr st2 \<Rightarrow>
             (case update_orders_where
                     (\<lambda>ord. \<exists>po \<in> set (package_orders st2).
                               sql_eq (po_package_id po) (Some package_id)
                             \<and> sql_eq (po_order_id po) (Some (o_id ord)))
                     (Some drv) st2 of
                Inl e \<Rightarrow> Some (Inl e)
              | Inr st3 \<Rightarrow> optimize_route draws package_id st3))"

text \<open>
  The driver loop: after each body the candidate orders are counted again and the loop is
  left when none remains. \<open>rnd\<close> gives the oracle of \<open>random()\<close> for each package.
\<close>

fun driver_loop ::
  "(uuid \<Rightarrow> nat \<Rightarrow> nat \<Rightarrow> real \<times> real) \<Rightarrow> uuid \<Rightarrow> date \<Rightarrow> uuid list \<Rightarrow> db \<Rightarrow> (error + db) option" where
  "driver_loop rnd fid shift_date [] st = Some (Inr st)"
| "driver_loop rnd fid shift_date (drv # rest) st =
     (case driver_cycle (rnd (fresh_uuid st)) fid shift_date drv st of
        None \<Rightarrow> None
      | Some (Inl e) \<Rightarrow> Some (Inl e)
      | Some (Inr st') \<Rightarrow>
          if length (unassigned_orders st' fid shift_date) = 0 then Some (Inr st')
          else driver_loop rnd fid shift_date rest st')"

text \<open>One run of the body of the loop that creates pending packages.\<close>

definition pending_cycle ::
  "(nat \<Rightarrow> nat \<Rightarrow> real \<times> real) \<Rightarrow> uuid \<Rightarrow> date \<Rightarrow> db \<Rightarrow> (error + db) option" where
  "pending_cycle draws fid shift_date st =
     (let (st1, package_id) =
            insert_driver_package st None (Some fid) shift_date 32400 61200 ''pending''
      in case insert_package_orders st1 package_id
                (map o_id (take 15 (unassigned_orders st1 fid shift_date))) of
           Inl e \<Rightarrow> Some (Inl e)
         | Inr st2 \<Rightarrow> optimize_route draws package_id st2)"

partial_function (option) pending_loop ::
  "(uuid \<Rightarrow> nat \<Rightarrow> nat \<Rightarrow> real \<times> real) \<Rightarrow> uuid \<Rightarrow> date \<Rightarrow> db \<Rightarrow> (error + db) option" where
  "pending_loop rnd fid shift_date st =
     (if length (unassigned_orders st fid shift_date) > 0
      then (case pending_cycle (rnd (fresh_uuid st)) fid shift_date st of
              None \<Rightarrow> None
            | Some r \<Rightarrow>
                (case r of
                   Inl e \<Rightarrow> Some (Inl e)
                 | Inr st' \<Rightarrow> pending_loop rnd fid shift_date st'))
      else Some (Inr st))"

text \<open>The block \<open>BEGIN ... EXCEPTION\<close> for one facility, without its handler.\<close>

definition process_facility ::
  "(uuid \<Rightarrow> nat \<Rightarrow> nat \<Rightarrow> real \<times> real) \<Rightarrow> date \<Rightarrow> facility_row \<Rightarrow> db \<Rightarrow> (error + db) option" where
  "process_facility rnd shift_date facility st =
     (if length (unassigned_orders st (f_id facility) shift_date) = 0 then Some (Inr st)
      else
        (case driver_loop rnd (f_id facility) shift_date
                (available_drivers st (f_id facility) shift_date) st of
           None \<Rightarrow> None
         | Some (Inl e) \<Rightarrow> Some (Inl e)
         | Some (Inr st1) \<Rightarrow> pending_loop rnd (f_id facility) shift_date st1))"

text \<open>
  The handler \<open>EXCEPTION WHEN OTHERS\<close>: the changes of the block are undone and one row
  is written to \<open>package_logs\<close>.
\<close>

definition log_generation_error :: "db \<Rightarrow> facility_row \<Rightarrow> error \<Rightarrow> db" where
  "log_generation_error st facility e =
     st\<lparr>package_logs := package_logs st @
          [\<lparr>pl_package_id = None,
            pl_event_type = ''package_generation_error'',
            pl_details = [(''facility_id'', JUuid (Some (f_id facility))),
                          (''error'', JError e)]\<rparr>]\<rparr>"

text \<open>The loop over the facilities; \<open>None\<close> when a loop inside never ends.\<close>

fun generate_loop ::
  "(uuid \<Rightarrow> nat \<Rightarrow> nat \<Rightarrow> real \<times> real) \<Rightarrow> date \<Rightarrow> facility_row list \<Rightarrow> db \<Rightarrow> db option" where
  "generate_loop rnd shift_date [] st = Some st"
| "generate_loop rnd shift_date (facility # rest) st =
     (case process_facility rnd shift_date facility st of
        None \<Rightarrow> None
      | Some (Inl e) \<Rightarrow> generate_loop rnd shift_date rest (log_generation_error st facility e)
      | Some (Inr st') \<Rightarrow> generate_loop rnd shift_date rest st')"

definition generate_driver_packages ::
  "(uuid \<Rightarrow> nat \<Rightarrow> nat \<Rightarrow> real \<times> real) \<Rightarrow> date \<Rightarrow> db \<Rightarrow> db option" where
  "generate_driver_packages rnd shift_date st =
     generate_loop rnd shift_date (filter f_status (facilities st)) st"

section \<open>Invariants, reachable states and frames\<close>







section \<open>Example databases\<close>

definition empty_db :: db where
  "empty_db = \<lparr>orders = [], facilities = [], drivers = [], facility_drivers = [],
     driver_packages = [], package_orders = [], package_logs = [], clock = 0\<rparr>"

text \<open>Facility 1 at (0, 0) and facility 2 at (0, 90), both open from 08:00 to 20:00.\<close>

definition facility1 :: facility_row where
  "facility1 = \<lparr>f_id = 1, f_status = True, f_latitude = 0, f_longitude = 0,
     f_opening_hour = Some 28800, f_close_hour = Some 72000\<rparr>"

definition facility2 :: facility_row where
  "facility2 = \<lparr>f_id = 2, f_status = True, f_latitude = 0, f_longitude = 90,
     f_opening_hour = Some 28800, f_close_hour = Some 72000\<rparr>"

text \<open>Orders in status \<open>processing\<close> for day 100, without driver.\<close>

definition order10 :: order_row where
  "order10 = \<lparr>o_id = 10, o_status = ''processing'', o_facility_id = Some 1,
     o_assigned_driver_id = None, o_estimated_delivery = (100, 36000)\<rparr>"

definition order11 :: order_row where
  "order11 = \<lparr>o_id = 11, o_status = ''processing'', o_facility_id = Some 1,
     o_assigned_driver_id = None, o_estimated_delivery = (100, 39600)\<rparr>"

definition order20 :: order_row where
  "order20 = \<lparr>o_id = 20, o_status = ''processing'', o_facility_id = Some 2,
     o_assigned_driver_id = None, o_estimated_delivery = (100, 36000)\<rparr>"

text \<open>One facility, its active driver 7 and one order.\<close>

definition one_driver_db :: db where
  "one_driver_db = empty_db\<lparr>orders := [order10], facilities := [facility1],
     drivers := [\<lparr>d_id = 7, d_status = True\<rparr>],
     facility_drivers := [\<lparr>fd_facility_id = Some 1, fd_driver_id = Some 7\<rparr>]\<rparr>"

text \<open>The same after the per-order path has assigned the order; \<open>first_row\<close> is the row
  it has inserted.\<close>

definition first_row :: package_order_row where
  "first_row = \<lparr>po_id = 2, po_package_id = Some 1, po_order_id = Some 10,
     po_sequence_number = 1, po_estimated_arrival = Some 36000, po_status = ''pending''\<rparr>"

definition assigned_db :: db where
  "assigned_db = one_driver_db\<lparr>
     orders := [order10\<lparr>o_assigned_driver_id := Some 7\<rparr>],
     driver_packages :=
       [\<lparr>dp_id = 1, dp_driver_id = Some 7, dp_facility_id = Some 1, dp_package_date = 100,
         dp_start_time = 32400, dp_end_time = 61200, dp_status = ''assigned'',
         dp_created_at = 0\<rparr>],
     package_orders := [first_row],
     package_logs :=
       [\<lparr>pl_package_id = Some 1, pl_event_type = ''order_assigned'',
         pl_details = [(''order_id'', JUuid (Some 10)), (''driver_id'', JUuid (Some 7)),
                       (''facility_id'', JUuid (Some 1))]\<rparr>]\<rparr>"

text \<open>A second row for order 10, in another package.\<close>

definition second_row :: package_order_row where
  "second_row = \<lparr>po_id = 3, po_package_id = Some 5, po_order_id = Some 10,
     po_sequence_number = 0, po_estimated_arrival = None, po_status = ''pending''\<rparr>"

text \<open>One facility and one order, no driver.\<close>

definition no_driver_db :: db where
  "no_driver_db = empty_db\<lparr>orders := [order10], facilities := [facility1]\<rparr>"

text \<open>The same after one run of the body of the pending loop.\<close>

definition pending_once_db :: db where
  "pending_once_db = no_driver_db\<lparr>
     driver_packages :=
       [\<lparr>dp_id = 1, dp_driver_id = None, dp_facility_id = Some 1, dp_package_date = 100,
         dp_start_time = 32400, dp_end_time = 61200, dp_status = ''pending'',
         dp_created_at = 0\<rparr>],
     package_orders :=
       [\<lparr>po_id = 2, po_package_id = Some 1, po_order_id = Some 10, po_sequence_number = 1,
         po_estimated_arrival = None, po_status = ''pending''\<rparr>],
     package_logs :=
       [\<lparr>pl_package_id = Some 1, pl_event_type = ''unassigned_package_alert'',
         pl_details = [(''facility_id'', JUuid (Some 1)), (''package_date'', JDate 100)]\<rparr>]\<rparr>"

text \<open>An order for 22:00, when facility 1 is closed.\<close>

definition late_order :: order_row where
  "late_order = \<lparr>o_id = 12, o_status = ''pending'', o_facility_id = None,
     o_assigned_driver_id = None, o_estimated_delivery = (100, 79200)\<rparr>"

text \<open>Two facilities: the first has an order and no driver, the second an order and driver 7.\<close>

definition two_facility_db :: db where
  "two_facility_db = empty_db\<lparr>orders := [order10, order20],
     facilities := [facility1, facility2],
     drivers := [\<lparr>d_id = 7, d_status = True\<rparr>],
     facility_drivers := [\<lparr>fd_facility_id = Some 2, fd_driver_id = Some 7\<rparr>]\<rparr>"

text \<open>The same after the batch run for day 100.\<close>

definition two_facility_result :: db where
  "two_facility_result = two_facility_db\<lparr>
     orders := [order10, order20\<lparr>o_assigned_driver_id := Some 7\<rparr>],
     driver_packages :=
       [\<lparr>dp_id = 1, dp_driver_id = Some 7, dp_facility_id = Some 2, dp_package_date = 100,
         dp_start_time = 32400, dp_end_time = 61200, dp_status = ''assigned'',
         dp_created_at = 0\<rparr>],
     package_orders :=
       [\<lparr>po_id = 2, po_package_id = Some 1, po_order_id = Some 20, po_sequence_number = 1,
         po_estimated_arrival = None, po_status = ''pending''\<rparr>],
     package_logs :=
       [\<lparr>pl_package_id = None, pl_event_type = ''package_generation_error'',
         pl_details = [(''facility_id'', JUuid (Some 1)),
                       (''error'', JError (OrderAlreadyAssigned (Some 10)))]\<rparr>]\<rparr>"

definition no_draws :: "uuid \<Rightarrow> nat \<Rightarrow> nat \<Rightarrow> real \<times> real" where
  "no_draws p k j = (0, 0)"

text \<open>A pending package of facility 1 with two stops not yet sequenced.\<close>

definition route_db :: db where
  "route_db = empty_db\<lparr>orders := [order10, order11], facilities := [facility1],
     driver_packages :=
       [\<lparr>dp_id = 1, dp_driver_id = None, dp_facility_id = Some 1, dp_package_date = 100,
         dp_start_time = 32400, dp_end_time = 61200, dp_status = ''pending'',
         dp_created_at = 0\<rparr>],
     package_orders :=
       [\<lparr>po_id = 2, po_package_id = Some 1, po_order_id = Some 10, po_sequence_number = 0,
         po_estimated_arrival = None, po_status = ''pending''\<rparr>,
        \<lparr>po_id = 3, po_package_id = Some 1, po_order_id = Some 11, po_sequence_number = 0,
         po_estimated_arrival = None, po_status = ''pending''\<rparr>]\<rparr>"

text \<open>Two outcomes of \<open>random()\<close>: the point drawn for the first candidate row is the
  facility's own position and the one for the second is a quarter turn away, or the other
  way round.\<close>

definition draws_near_first :: "nat \<Rightarrow> nat \<Rightarrow> real \<times> real" where
  "draws_near_first k j = (if j = 0 then (0, 0) else (0, 1 / 2))"

definition draws_far_first :: "nat \<Rightarrow> nat \<Rightarrow> real \<times> real" where
  "draws_far_first k j = (if j = 0 then (0, 1 / 2) else (0, 0))"

text \<open>Two open facilities at the same place, the one with the greater id first in the table.\<close>

definition tie_db :: db where
  "tie_db = empty_db\<lparr>facilities :=
     [\<lparr>f_id = 2, f_status = True, f_latitude = 52, f_longitude = 4,
       f_opening_hour = Some 28800, f_close_hour = Some 72000\<rparr>,
      \<lparr>f_id = 1, f_status = True, f_latitude = 52, f_longitude = 4,
       f_opening_hour = Some 28800, f_close_hour = Some 72000\<rparr>]\<rparr>"

text \<open>Facility 1 half a turn away and open, facility 2 on the spot and closed after 12:00,
  facility 3 a quarter turn away and open.\<close>

definition near_closed_db :: db where
  "near_closed_db = empty_db\<lparr>facilities :=
     [\<lparr>f_id = 1, f_status = True, f_latitude = 0, f_longitude = 180,
       f_opening_hour = Some 28800, f_close_hour = Some 72000\<rparr>,
      \<lparr>f_id = 2, f_status = True, f_latitude = 0, f_longitude = 0,
       f_opening_hour = Some 28800, f_close_hour = Some 43200\<rparr>,
      \<lparr>f_id = 3, f_status = True, f_latitude = 0, f_longitude = 90,
       f_opening_hour = Some 28800, f_close_hour = Some 72000\<rparr>]\<rparr>"

text \<open>Driver 7 has two active packages for day 100; order 10 is in the first, and no order
  is assigned to the driver yet.\<close>

definition two_package_db :: db where
  "two_package_db = empty_db\<lparr>orders := [order10],
     drivers := [\<lparr>d_id = 7, d_status = True\<rparr>],
     driver_packages :=
       [\<lparr>dp_id = 1, dp_driver_id = Some 7, dp_facility_id = Some 1, dp_package_date = 100,
         dp_start_time = 32400, dp_end_time = 61200, dp_status = ''assigned'',
         dp_created_at = 0\<rparr>,
        \<lparr>dp_id = 2, dp_driver_id = Some 7, dp_facility_id = Some 1, dp_package_date = 100,
         dp_start_time = 32400, dp_end_time = 61200, dp_status = ''assigned'',
         dp_created_at = 0\<rparr>],
     package_orders :=
       [\<lparr>po_id = 3, po_package_id = Some 1, po_order_id = Some 10, po_sequence_number = 1,
         po_estimated_arrival = None, po_status = ''pending''\<rparr>]\<rparr>"

text \<open>Driver 7 has one package for day 100, which holds orders 10 and 11; order 11 is
  assigned to the driver.\<close>

definition shared_package_db :: db where
  "shared_package_db = empty_db\<lparr>
     orders := [order10, order11\<lparr>o_assigned_driver_id := Some 7\<rparr>],
     drivers := [\<lparr>d_id = 7, d_status = True\<rparr>],
     driver_packages :=
       [\<lparr>dp_id = 1, dp_driver_id = Some 7, dp_facility_id = Some 1, dp_package_date = 100,
         dp_start_time = 32400, dp_end_time = 61200, dp_status = ''assigned'',
         dp_created_at = 0\<rparr>],
     package_orders :=
       [\<lparr>po_id = 3, po_package_id = Some 1, po_order_id = Some 10, po_sequence_number = 1,
         po_estimated_arrival = None, po_status = ''pending''\<rparr>,
        \<lparr>po_id = 4, po_package_id = Some 1, po_order_id = Some 11, po_sequence_number = 2,
         po_estimated_arrival = None, po_status = ''pending''\<rparr>]\<rparr>"

text \<open>A row for order 11 in package 1, and the row of order 10 moved to stop 5.\<close>

definition third_row :: package_order_row where
  "third_row = \<lparr>po_id = 4, po_package_id = Some 1, po_order_id = Some 11,
     po_sequence_number = 0, po_estimated_arrival = None, po_status = ''pending''\<rparr>"

definition moved_row :: package_order_row where
  "moved_row = first_row\<lparr>po_sequence_number := 5\<rparr>"

section \<open>Auxiliary facts\<close>

lemma first_min_by_None: "first_min_by k xs = None \<longleftrightarrow> xs = []"
  by (induction xs) (auto split: option.splits)

lemma first_min_by_mem: "first_min_by k xs = Some x \<Longrightarrow> x \<in> set xs"
  by (induction xs arbitrary: x) (auto split: option.splits if_splits)

lemma first_min_by_le: "first_min_by k xs = Some x \<Longrightarrow> y \<in> set xs \<Longrightarrow> k x \<le> k y"
proof (induction xs arbitrary: x)
  case Nil
  then show ?case by simp
next
  case (Cons a xs)
  show ?case
  proof (cases "first_min_by k xs")
    case None
    then have "xs = []" by (simp add: first_min_by_None)
    with Cons.prems show ?thesis by simp
  next
    case (Some m)
    with Cons show ?thesis
      by (auto split: if_splits)
  qed
qed

lemma dist_zero: "calculate_distance 0 0 0 0 = 0"
  by (simp add: calculate_distance_def radians_def)

lemma dist_half: "calculate_distance 0 0 0 180 = 6371 * pi"
  by (simp add: calculate_distance_def radians_def)









lemma sql_eq_Some [simp]: "sql_eq a (Some y) \<longleftrightarrow> a = Some y"
  by (cases a) (auto simp: sql_eq_def)

lemma sql_eq_Some2 [simp]: "sql_eq (Some x) b \<longleftrightarrow> b = Some x"
  by (cases b) (auto simp: sql_eq_def)

lemma sql_eq_None [simp]: "\<not> sql_eq None b" "\<not> sql_eq a None"
  by (auto simp: sql_eq_def split: option.splits)

lemma sql_ne_None [simp]: "\<not> sql_ne None b" "\<not> sql_ne a None"
  by (auto simp: sql_ne_def split: option.splits)

lemma sql_ne_Some [simp]: "sql_ne (Some x) (Some y) \<longleftrightarrow> x \<noteq> y"
  by (simp add: sql_ne_def)











































lemma generate_loop_append:
  "generate_loop rnd d (pre @ post) st =
     (case generate_loop rnd d pre st of None \<Rightarrow> None | Some st1 \<Rightarrow> generate_loop rnd d post st1)"
  by (induction pre arbitrary: st) (auto split: option.splits sum.splits)




section \<open>Evaluation of the examples\<close>

lemmas example_defs = empty_db_def facility1_def facility2_def order10_def order11_def
  order20_def one_driver_db_def first_row_def assigned_db_def second_row_def no_driver_db_def
  pending_once_db_def late_order_def two_facility_db_def two_facility_result_def
  no_draws_def route_db_def draws_near_first_def draws_far_first_def tie_db_def
  near_closed_db_def two_package_db_def shared_package_db_def
  third_row_def moved_row_def

lemmas engine_defs = handle_order_package_def find_available_driver_def open_package_def
  insert_driver_package_def insert_package_order_def validate_order_assignment_def
  update_orders_where_def update_order_at_def validate_driver_status_def
  prevent_duplicate_driver_assignment_def unique_checks_def package_driver_def
  fresh_uuid_def used_uuids_def next_sequence_number_def has_full_package_def
  driver_load_def package_size_def notify_unassigned_packages_def
  generate_driver_packages_def process_facility_def unassigned_orders_def
  available_drivers_def driver_cycle_def pending_cycle_def optimize_route_def
  facility_coordinates_def route_candidates_def next_stop_def
  update_package_orders_where_def update_package_order_at_def log_generation_error_def
  optimize_route_loop.simps pending_loop.simps Let_def

lemma pi_not_le_zero: "\<not> pi \<le> 0"
  using pi_gt_zero by linarith

lemma distance_same: "calculate_distance 0 0 0 0 = 0"
  by (simp add: calculate_distance_def radians_def)

lemma distance_quarter: "calculate_distance 0 0 0 90 = 6371 * pi / 2"
proof -
  have "\<bar>sin (pi / 4)\<bar> = sin (pi / 4)"
    by (simp add: sin_45)
  moreover have "arcsin (sin (pi / 4)) = pi / 4"
    by (rule arcsin_sin) (use pi_gt_zero in simp_all)
  ultimately show ?thesis
    by (simp add: calculate_distance_def radians_def Let_def)
qed

lemma distance_half: "calculate_distance 0 0 0 180 = 6371 * pi"
  by (simp add: calculate_distance_def radians_def)




lemma second_row_rejected:
  "insert_package_order assigned_db second_row = Inl (OrderAlreadyAssigned (Some 10))"
  by (simp add: example_defs engine_defs)




lemma facility1_fails:
  "process_facility no_draws 100 facility1 two_facility_db
     = Some (Inl (OrderAlreadyAssigned (Some 10)))"
  by (simp add: example_defs engine_defs)

lemma batch_two_facilities:
  "generate_driver_packages no_draws 100 two_facility_db = Some two_facility_result"
  by (simp add: example_defs engine_defs)



lemma nearest_of_tie: "find_nearest_facility tie_db 52 4 (100, 43200) = Some 2"
  by (simp add: find_nearest_facility_def open_facilities_def example_defs)

lemma nearest_open: "find_nearest_facility near_closed_db 0 0 (100, 50000) = Some 3"
  by (simp add: find_nearest_facility_def open_facilities_def example_defs
        distance_quarter distance_half pi_not_le_zero)


section \<open>The claims\<close>







text \<open>
  Claim C5, as the code has it. For coordinates and a requested time,
  \<open>find_nearest_facility\<close> returns NULL exactly when no facility is active with
  \<open>opening_hour \<le> time of day \<le> close_hour\<close>; otherwise it returns the id of such a
  facility whose haversine distance to the coordinates is least among them, so a nearer
  closed facility is never chosen over a farther open one. Among facilities at the same
  least distance the query names no order: the lowest id is not preferred.
\<close>

theorem find_nearest_facility_nearest_open:
  "(find_nearest_facility st lat lon t = None \<longleftrightarrow> open_facilities st (snd t) = [])
 \<and> (find_nearest_facility st lat lon t = Some fid \<longrightarrow>
      (\<exists>f \<in> set (facilities st).
          f_id f = fid \<and> f_status f
        \<and> (\<exists>a b. f_opening_hour f = Some a \<and> f_close_hour f = Some b \<and> a \<le> snd t \<and> snd t \<le> b)
        \<and> (\<forall>g \<in> set (facilities st).
              f_status g
            \<and> (\<exists>a b. f_opening_hour g = Some a \<and> f_close_hour g = Some b
                    \<and> a \<le> snd t \<and> snd t \<le> b)
            \<longrightarrow> calculate_distance lat lon (f_latitude f) (f_longitude f)
                \<le> calculate_distance lat lon (f_latitude g) (f_longitude g))))"
proof (intro conjI impI)
  show "find_nearest_facility st lat lon t = None \<longleftrightarrow> open_facilities st (snd t) = []"
    by (simp add: find_nearest_facility_def first_min_by_None)
next
  assume "find_nearest_facility st lat lon t = Some fid"
  then obtain f
    where m: "first_min_by (\<lambda>f. calculate_distance lat lon (f_latitude f) (f_longitude f))
                (open_facilities st (snd t)) = Some f"
      and i: "f_id f = fid"
    by (auto simp: find_nearest_facility_def)
  have mem: "\<And>g. g \<in> set (open_facilities st (snd t)) \<longleftrightarrow>
               g \<in> set (facilities st) \<and> f_status g
             \<and> (\<exists>a b. f_opening_hour g = Some a \<and> f_close_hour g = Some b
                    \<and> a \<le> snd t \<and> snd t \<le> b)"
    by (auto simp: open_facilities_def split: option.splits)
  from first_min_by_mem[OF m] have fm: "f \<in> set (open_facilities st (snd t))" .
  have least: "\<And>g. g \<in> set (open_facilities st (snd t)) \<Longrightarrow>
                calculate_distance lat lon (f_latitude f) (f_longitude f)
              \<le> calculate_distance lat lon (f_latitude g) (f_longitude g)"
    by (rule first_min_by_le[OF m])
  show "\<exists>f \<in> set (facilities st).
          f_id f = fid \<and> f_status f
        \<and> (\<exists>a b. f_opening_hour f = Some a \<and> f_close_hour f = Some b \<and> a \<le> snd t \<and> snd t \<le> b)
        \<and> (\<forall>g \<in> set (facilities st).
              f_status g
            \<and> (\<exists>a b. f_opening_hour g = Some a \<and> f_close_hour g = Some b
                    \<and> a \<le> snd t \<and> snd t \<le> b)
            \<longrightarrow> calculate_distance lat lon (f_latitude f) (f_longitude f)
                \<le> calculate_distance lat lon (f_latitude g) (f_longitude g))"
  proof (rule bexI[of _ f])
    show "f \<in> set (facilities st)" using fm mem by blast
    show "f_id f = fid \<and> f_status f
        \<and> (\<exists>a b. f_opening_hour f = Some a \<and> f_close_hour f = Some b \<and> a \<le> snd t \<and> snd t \<le> b)
        \<and> (\<forall>g \<in> set (facilities st).
              f_status g
            \<and> (\<exists>a b. f_opening_hour g = Some a \<and> f_close_hour g = Some b
                    \<and> a \<le> snd t \<and> snd t \<le> b)
            \<longrightarrow> calculate_distance lat lon (f_latitude f) (f_longitude f)
                \<le> calculate_distance lat lon (f_latitude g) (f_longitude g))"
      using i fm mem least by blast
  qed
qed

theorem find_nearest_facility_nearest_open_witness:
  "find_nearest_facility near_closed_db 0 0 (100, 50000) = Some 3
 \<and> map f_id (open_facilities near_closed_db 50000) = [1, 3]
 \<and> calculate_distance 0 0 0 0 < calculate_distance 0 0 0 90
 \<and> (\<exists>f \<in> set (facilities near_closed_db).
        f_id f = 3 \<and> f_status f
      \<and> (\<forall>g \<in> set (facilities near_closed_db).
            f_status g
          \<and> (\<exists>a b. f_opening_hour g = Some a \<and> f_close_hour g = Some b
                  \<and> a \<le> 50000 \<and> 50000 \<le> b)
          \<longrightarrow> calculate_distance 0 0 (f_latitude f) (f_longitude f)
              \<le> calculate_distance 0 0 (f_latitude g) (f_longitude g)))"
proof -
  have o: "map f_id (open_facilities near_closed_db 50000) = [1, 3]"
    by (simp add: open_facilities_def example_defs)
  have d: "calculate_distance 0 0 0 0 < calculate_distance 0 0 0 90"
    by (simp add: distance_same distance_quarter)
  from find_nearest_facility_nearest_open[of near_closed_db 0 0 "(100, 50000)" 3] nearest_open
  have "\<exists>f \<in> set (facilities near_closed_db).
        f_id f = 3 \<and> f_status f
      \<and> (\<forall>g \<in> set (facilities near_closed_db).
            f_status g
          \<and> (\<exists>a b. f_opening_hour g = Some a \<and> f_close_hour g = Some b
                  \<and> a \<le> 50000 \<and> 50000 \<le> b)
          \<longrightarrow> calculate_distance 0 0 (f_latitude f) (f_longitude f)
              \<le> calculate_distance 0 0 (f_latitude g) (f_longitude g))"
    by simp blast
  then show ?thesis using nearest_open o d by blast
qed

text \<open>
  Claim C5 as stated fails on a tie: facilities 2 and 1 are both open at 12:00 and lie at
  the same point, so both are at the least distance, and the function returns 2, met first
  in the table, not the lowest id 1.
\<close>

theorem find_nearest_facility_tie_counterexample:
  "find_nearest_facility tie_db 52 4 (100, 43200) = Some 2
 \<and> map f_id (open_facilities tie_db 43200) = [2, 1]
 \<and> map f_latitude (open_facilities tie_db 43200) = [52, 52]
 \<and> map f_longitude (open_facilities tie_db 43200) = [4, 4]"
  using nearest_of_tie by (simp add: open_facilities_def example_defs)









text \<open>
  Claim C10. In the batch run a failure of one facility does not end the run. The loop over
  the facilities returns no error at all (its result is a state, or nothing when a loop
  inside does not end); when the block of a facility raises an error, the run goes on with
  the next facility from the state the facility started in, to which exactly one row of
  \<open>package_logs\<close> is added: a \<open>package_generation_error\<close> with the facility's id and the
  error. So the facilities after a failing one are processed.
\<close>

theorem facility_failure_isolated:
  assumes "filter f_status (facilities st) = pre @ facility # post"
    and "generate_loop rnd shift_date pre st = Some st1"
    and "process_facility rnd shift_date facility st1 = Some (Inl e)"
  shows "generate_driver_packages rnd shift_date st =
           generate_loop rnd shift_date post (log_generation_error st1 facility e)
       \<and> package_logs (log_generation_error st1 facility e) =
           package_logs st1 @
             [\<lparr>pl_package_id = None, pl_event_type = ''package_generation_error'',
               pl_details = [(''facility_id'', JUuid (Some (f_id facility))),
                             (''error'', JError e)]\<rparr>]
       \<and> orders (log_generation_error st1 facility e) = orders st1
       \<and> driver_packages (log_generation_error st1 facility e) = driver_packages st1
       \<and> package_orders (log_generation_error st1 facility e) = package_orders st1"
  using assms
  by (simp add: generate_driver_packages_def generate_loop_append log_generation_error_def)

theorem facility_failure_isolated_witness:
  "filter f_status (facilities two_facility_db) = [] @ facility1 # [facility2]
 \<and> generate_loop no_draws 100 [] two_facility_db = Some two_facility_db
 \<and> process_facility no_draws 100 facility1 two_facility_db
      = Some (Inl (OrderAlreadyAssigned (Some 10)))
 \<and> generate_driver_packages no_draws 100 two_facility_db
      = generate_loop no_draws 100 [facility2]
          (log_generation_error two_facility_db facility1 (OrderAlreadyAssigned (Some 10)))
 \<and> generate_driver_packages no_draws 100 two_facility_db = Some two_facility_result
 \<and> package_orders two_facility_result =
      [\<lparr>po_id = 2, po_package_id = Some 1, po_order_id = Some 20, po_sequence_number = 1,
        po_estimated_arrival = None, po_status = ''pending''\<rparr>]"
proof -
  have a: "filter f_status (facilities two_facility_db) = [] @ facility1 # [facility2]"
    by (simp add: example_defs)
  have b: "generate_loop no_draws 100 [] two_facility_db = Some two_facility_db"
    by simp
  from facility_failure_isolated[OF a b facility1_fails]
  have "generate_driver_packages no_draws 100 two_facility_db
      = generate_loop no_draws 100 [facility2]
          (log_generation_error two_facility_db facility1 (OrderAlreadyAssigned (Some 10)))"
    by simp
  moreover have "package_orders two_facility_result =
      [\<lparr>po_id = 2, po_package_id = Some 1, po_order_id = Some 20, po_sequence_number = 1,
        po_estimated_arrival = None, po_status = ''pending''\<rparr>]"
    by (simp add: two_facility_result_def)
  ultimately show ?thesis using a b facility1_fails batch_two_facilities by simp
qed

end
